theory Spec2Isabelle
  imports Main
begin

section \<open>Thrown values\<close>

text \<open>
  A value that a call may throw. The source types it
  \<^verbatim>\<open>Error | Json5SyntaxError\<close>: every error has a \<open>message\<close>, and a
  \<^verbatim>\<open>Json5SyntaxError\<close> also has the numeric fields \<open>lineNumber\<close> and
  \<open>columnNumber\<close>. The test \<^verbatim>\<open>'lineNumber' in e\<close> asks whether the field is
  present, so each field is optional here. Line and column numbers are the integer
  values of the type \<^verbatim>\<open>number\<close>; its other values (fractions, \<^verbatim>\<open>NaN\<close>, the
  infinities) are not line or column numbers and have no counterpart here.
  A call that may throw returns \<open>JsError + 'a\<close>, with \<open>Inl\<close> for the thrown value.
\<close>

record JsError =
  name :: string
  message :: string
  lineNumber :: "int option"
  columnNumber :: "int option"

section \<open>Arithmetic of the type number\<close>

text \<open>
  The operators \<^verbatim>\<open>+\<close> and \<^verbatim>\<open>-\<close> of the source work on double-precision numbers:
  the result is the exact result rounded to the nearest number with 53 significant
  bits, ties going to the one whose last bit is 0. Integers of magnitude up to
  \<open>2 ^ 53 = 9007199254740992\<close> are kept exactly. (Magnitudes beyond the largest double
  do not arise from a document offset and a column number, and are not modelled.)
\<close>

function bitLength :: "int \<Rightarrow> nat" where
  "bitLength n = (if n \<le> 0 then 0 else Suc (bitLength (n div 2)))"
  by pat_completeness auto
termination
  by (relation "measure nat") auto

definition roundToDouble :: "int \<Rightarrow> int" where
  "roundToDouble x =
     (let m = \<bar>x\<bar> in
      if m < 9007199254740992 then x
      else
        (let e = bitLength m - 53;
             q = m div 2 ^ e;
             r = m mod 2 ^ e;
             half = 2 ^ (e - 1);
             q' = (if half < r \<or> (r = half \<and> odd q) then q + 1 else q)
         in sgn x * (q' * 2 ^ e)))"

definition jsPlus :: "int \<Rightarrow> int \<Rightarrow> int" where
  "jsPlus a b = roundToDouble (a + b)"

definition jsMinus :: "int \<Rightarrow> int \<Rightarrow> int" where
  "jsMinus a b = roundToDouble (a - b)"

section \<open>The editor's document\<close>

text \<open>
  The document type \<^verbatim>\<open>Text\<close> of the host editor, as its leaf representation has it:
  the list of the document's lines. \<^verbatim>\<open>toString\<close> joins the lines with a line
  break, \<^verbatim>\<open>length\<close> counts one unit for each line break, and
  \<^verbatim>\<open>line(n)\<close> describes the line with the 1-based number \<open>n\<close>; the host editor throws
  a \<^verbatim>\<open>RangeError\<close> from \<^verbatim>\<open>line(n)\<close> when \<open>n < 1\<close> or \<open>n\<close> exceeds the number of
  lines.
\<close>

type_synonym Text = "string list"

fun toString :: "Text \<Rightarrow> string" where
  "toString [] = []"
| "toString [l] = l"
| "toString (l # ls) = l @ CHR 0x0A # toString ls"

definition lines :: "Text \<Rightarrow> nat" where
  "lines doc = length doc"

definition doc_length :: "Text \<Rightarrow> nat" where
  "doc_length doc = sum_list (map length doc) + (length doc - 1)"

record Line =
  line_from :: nat
  line_to :: nat
  line_number :: nat
  line_text :: string

fun show_nat :: "nat \<Rightarrow> string" where
  "show_nat n =
     (if n < 10 then [char_of (48 + n)]
      else show_nat (n div 10) @ [char_of (48 + n mod 10)])"

definition show_int :: "int \<Rightarrow> string" where
  "show_int i = (if i < 0 then CHR ''-'' # show_nat (nat (- i)) else show_nat (nat i))"

definition RangeError :: "string \<Rightarrow> JsError" where
  "RangeError msg =
     \<lparr>name = ''RangeError'', message = msg, lineNumber = None, columnNumber = None\<rparr>"

definition line :: "Text \<Rightarrow> int \<Rightarrow> JsError + Line" where
  "line doc n =
     (if n < 1 \<or> n > int (lines doc)
      then Inl (RangeError (''Invalid line number '' @ show_int n @ '' in ''
                  @ show_nat (lines doc) @ ''-line document''))
      else
        (let k = nat n - 1;
             start = sum_list (map (\<lambda>l. length l + 1) (take k doc))
         in Inr \<lparr>line_from = start, line_to = start + length (doc ! k),
                 line_number = nat n, line_text = doc ! k\<rparr>))"

section \<open>Diagnostics\<close>

datatype Severity = Hint | Info | Warning | Error

record Diagnostic =
  diag_from :: int
  diag_to :: int
  diag_message :: string
  severity :: Severity

text \<open>
  What a lint source returns: \<^verbatim>\<open>Diagnostic[] | Promise<Diagnostic[]>\<close>. A pending
  result is opaque to this program, which only passes it on.
\<close>

datatype 'p LintResult = Diagnostics "Diagnostic list" | Pending 'p

section \<open>Editor state, view and transaction\<close>

record 'v Json5ParseCache =
  err :: "JsError option"
  obj :: "'v option"

record SelectionRange =
  range_from :: nat
  range_to :: nat

record EditorSelection =
  main :: SelectionRange

text \<open>
  The part of the editor state this program reads: the document, the selection, the
  value of the \<^verbatim>\<open>json5ParseCache\<close> field (absent when the field is not installed:
  \<^verbatim>\<open>state.field(json5ParseCache, false)\<close> is then \<^verbatim>\<open>undefined\<close>; the field's own
  value is a cache entry or \<^verbatim>\<open>null\<close>) and the syntax tree, which only the helpers
  of the cursor path read.
\<close>

record ('v, 't) EditorState =
  state_doc :: Text
  selection :: EditorSelection
  parseCacheField :: "'v Json5ParseCache option option"
  tree :: 't

record ('v, 't) EditorView =
  view_state :: "('v, 't) EditorState"

record ('v, 't) Transaction =
  docChanged :: bool
  newDoc :: Text
  tx_state :: "('v, 't) EditorState"

section \<open>The parse cache\<close>

text \<open>
  \<^verbatim>\<open>JSON5.parse\<close> belongs to an external library: it is the parameter \<open>parse\<close>, which
  returns the parsed value or throws.
\<close>

type_synonym 'v Parser = "string \<Rightarrow> JsError + 'v"

definition json5ParseCache_create :: "'v Json5ParseCache option" where
  "json5ParseCache_create = None"

definition json5ParseCache_update ::
  "'v Parser \<Rightarrow> 'v Json5ParseCache option \<Rightarrow> ('v, 't) Transaction
     \<Rightarrow> JsError + 'v Json5ParseCache option" where
  "json5ParseCache_update parse oldValue tx =
     (if \<not> docChanged tx then Inr oldValue
      else
        (case parse (toString (newDoc tx)) of
           Inr parsed \<Rightarrow> Inr (Some \<lparr>err = None, obj = Some parsed\<rparr>)
         | Inl e \<Rightarrow>
             Inr (Some \<lparr>err = Some e,
                        obj = (case oldValue of None \<Rightarrow> None | Some c \<Rightarrow> obj c)\<rparr>)))"

section \<open>The linter\<close>

text \<open>
  \<^verbatim>\<open>handleParseError\<close>: \<open>pos\<close> starts at 0 and is replaced by
  \<^verbatim>\<open>Math.min(doc.line(e.lineNumber).from + e.columnNumber - 1, doc.length)\<close> when the
  error has both position fields; the line lookup may throw, and nothing in the function
  catches it. The sum and the difference are those of the type \<^verbatim>\<open>number\<close>; a column
  below 1 can make the offset negative.
\<close>

definition handleParseError :: "Text \<Rightarrow> JsError \<Rightarrow> JsError + Diagnostic list" where
  "handleParseError doc e =
     (case
        (case (lineNumber e, columnNumber e) of
           (Some l, Some c) \<Rightarrow>
             (case line doc l of
                Inl x \<Rightarrow> Inl x
              | Inr ln \<Rightarrow>
                  Inr (min (jsMinus (jsPlus (int (line_from ln)) c) 1)
                           (int (doc_length doc))))
         | _ \<Rightarrow> Inr 0)
      of
        Inl x \<Rightarrow> Inl x
      | Inr pos \<Rightarrow>
          Inr [\<lparr>diag_from = pos, diag_to = pos, diag_message = message e,
                severity = Error\<rparr>])"

text \<open>
  The caller's structural linter may return diagnostics, return a pending result, or
  throw. \<^verbatim>\<open>structureLinter?.(view, parsed) ?? []\<close> is the empty list when no linter was
  supplied.
\<close>

type_synonym ('v, 't, 'p) StructureLinter =
  "('v, 't) EditorView \<Rightarrow> 'v \<Rightarrow> JsError + 'p LintResult"

definition callStructureLinter ::
  "('v, 't, 'p) StructureLinter option \<Rightarrow> ('v, 't) EditorView \<Rightarrow> 'v
     \<Rightarrow> JsError + 'p LintResult" where
  "callStructureLinter structureLinter view parsed =
     (case structureLinter of
        None \<Rightarrow> Inr (Diagnostics [])
      | Some f \<Rightarrow> f view parsed)"

text \<open>
  \<^verbatim>\<open>return handleParseError(doc, e)\<close> inside the lint source: the diagnostics as a
  lint result, or what \<^verbatim>\<open>handleParseError\<close> throws.
\<close>

definition reportParseError :: "Text \<Rightarrow> JsError \<Rightarrow> JsError + 'p LintResult" where
  "reportParseError doc e =
     (case handleParseError doc e of Inl x \<Rightarrow> Inl x | Inr ds \<Rightarrow> Inr (Diagnostics ds))"

text \<open>
  The \<^verbatim>\<open>try\<close> block of the lint source with its \<^verbatim>\<open>catch\<close>: the block parses the
  whole document text and calls the structural linter on the result; whatever either of
  them throws is handed to \<^verbatim>\<open>handleParseError\<close>, from within the handler.
\<close>

definition freshParseLint ::
  "'v Parser \<Rightarrow> ('v, 't, 'p) StructureLinter option \<Rightarrow> ('v, 't) EditorView
     \<Rightarrow> JsError + 'p LintResult" where
  "freshParseLint parse structureLinter view =
     (let doc = state_doc (view_state view) in
      case parse (toString doc) of
        Inl e \<Rightarrow> reportParseError doc e
      | Inr parsed \<Rightarrow>
          (case callStructureLinter structureLinter view parsed of
             Inl e \<Rightarrow> reportParseError doc e
           | Inr r \<Rightarrow> Inr r))"

text \<open>
  The lint source that \<^verbatim>\<open>json5ParseLinter(structureLinter)\<close> returns, applied to a
  view. A cache entry with an error is reported; one with a value goes to the
  structural linter, outside any \<^verbatim>\<open>try\<close>; every other case falls through to the
  \<^verbatim>\<open>try\<close> block.
\<close>

definition json5ParseLinter ::
  "'v Parser \<Rightarrow> ('v, 't, 'p) StructureLinter option \<Rightarrow> ('v, 't) EditorView
     \<Rightarrow> JsError + 'p LintResult" where
  "json5ParseLinter parse structureLinter view =
     (let doc = state_doc (view_state view);
          cached = parseCacheField (view_state view)
      in case cached of
           Some (Some c) \<Rightarrow>
             (case err c of
                Some e \<Rightarrow> reportParseError doc e
              | None \<Rightarrow>
                  (case obj c of
                     Some v \<Rightarrow> callStructureLinter structureLinter view v
                   | None \<Rightarrow> freshParseLint parse structureLinter view))
         | _ \<Rightarrow> freshParseLint parse structureLinter view)"

section \<open>The cursor path\<close>

datatype PathSegment = Key string | Index int

record 'n JsonCursorPath =
  path :: "PathSegment list option"
  node :: "'n option"

text \<open>
  \<^verbatim>\<open>nodeAtCursor\<close> and \<^verbatim>\<open>getPathAtNode\<close> are imported from the module
  \<^verbatim>\<open>./editor\<close>; they are parameters of the update, taken as functions that return.
\<close>

definition jsonCursorPath_create :: "'n JsonCursorPath" where
  "jsonCursorPath_create = \<lparr>path = None, node = None\<rparr>"

definition jsonCursorPath_update ::
  "(('v, 't) EditorState \<Rightarrow> nat \<Rightarrow> 'n option)
     \<Rightarrow> (('v, 't) EditorState \<Rightarrow> 'n \<Rightarrow> PathSegment list option)
     \<Rightarrow> 'n JsonCursorPath \<Rightarrow> ('v, 't) Transaction \<Rightarrow> 'n JsonCursorPath" where
  "jsonCursorPath_update nodeAtCursor getPathAtNode oldValue tx =
     (let cursorPos = range_to (main (selection (tx_state tx)));
          currentNode = nodeAtCursor (tx_state tx) cursorPos;
          currentPath = (case currentNode of
                           None \<Rightarrow> None
                         | Some n \<Rightarrow> getPathAtNode (tx_state tx) n)
      in \<lparr>path = currentPath, node = currentNode\<rparr>)"

section \<open>Auxiliary notions for the statements\<close>

text \<open>
  The cases in which \<^verbatim>\<open>json5ParseLinter\<close> finds no cache entry: the field is not
  installed (\<^verbatim>\<open>undefined\<close>) or still holds its initial value \<^verbatim>\<open>null\<close>.
\<close>

definition noCacheEntry :: "('v, 't) EditorView \<Rightarrow> bool" where
  "noCacheEntry view =
     (parseCacheField (view_state view) = None
      \<or> parseCacheField (view_state view) = Some None)"

text \<open>
  The cases in which \<^verbatim>\<open>json5ParseLinter\<close> reaches its own \<^verbatim>\<open>try\<close> block: no cache
  entry, or an entry with neither an error nor a value.
\<close>

definition reachesFreshParse :: "('v, 't) EditorView \<Rightarrow> bool" where
  "reachesFreshParse view =
     (case parseCacheField (view_state view) of
        Some (Some c) \<Rightarrow> err c = None \<and> obj c = None
      | _ \<Rightarrow> True)"

text \<open>The zero-width error diagnostic at \<open>pos\<close> that carries the message of \<open>e\<close>.\<close>

definition errorDiagnosticAt :: "int \<Rightarrow> JsError \<Rightarrow> Diagnostic" where
  "errorDiagnosticAt pos e =
     \<lparr>diag_from = pos, diag_to = pos, diag_message = message e, severity = Error\<rparr>"

text \<open>
  The errors whose position \<^verbatim>\<open>handleParseError\<close> can compute in \<open>doc\<close>: those without
  both position fields, and those whose line number is a line of \<open>doc\<close>.
\<close>

definition lineInDocument :: "Text \<Rightarrow> JsError \<Rightarrow> bool" where
  "lineInDocument doc e =
     (case (lineNumber e, columnNumber e) of
        (Some l, Some c) \<Rightarrow> 1 \<le> l \<and> l \<le> int (lines doc)
      | _ \<Rightarrow> True)"

text \<open>The invariant of the cursor path state: no path without a node.\<close>

definition cursorPathInv :: "'n JsonCursorPath \<Rightarrow> bool" where
  "cursorPathInv s = (node s = None \<longrightarrow> path s = None)"

section \<open>Example inputs\<close>

text \<open>
  A stand-in for the external parser, used at concrete inputs only: it accepts the
  text \<open>1\<close> and rejects every other text the way JSON5 rejects the text \<open>{\<close>.
\<close>

definition exampleError :: JsError where
  "exampleError =
     \<lparr>name = ''SyntaxError'', message = ''JSON5: invalid end of input at 1:2'',
      lineNumber = Some 1, columnNumber = Some 2\<rparr>"

definition exampleParse :: "int Parser" where
  "exampleParse s = (if s = ''1'' then Inr 1 else Inl exampleError)"

text \<open>A stand-in parser that reports every error on line 3, whatever the text.\<close>

definition exampleStrayParse :: "int Parser" where
  "exampleStrayParse s = Inl (exampleError\<lparr>lineNumber := Some 3\<rparr>)"

definition exampleState ::
  "Text \<Rightarrow> nat \<Rightarrow> int Json5ParseCache option option \<Rightarrow> (int, unit) EditorState" where
  "exampleState d cursor cache =
     \<lparr>state_doc = d, selection = \<lparr>main = \<lparr>range_from = cursor, range_to = cursor\<rparr>\<rparr>,
      parseCacheField = cache, tree = ()\<rparr>"

definition exampleView ::
  "Text \<Rightarrow> int Json5ParseCache option option \<Rightarrow> (int, unit) EditorView" where
  "exampleView d cache = \<lparr>view_state = exampleState d 0 cache\<rparr>"

definition exampleTx :: "bool \<Rightarrow> Text \<Rightarrow> nat \<Rightarrow> (int, unit) Transaction" where
  "exampleTx changed d cursor =
     \<lparr>docChanged = changed, newDoc = d, tx_state = exampleState d cursor None\<rparr>"

text \<open>
  Stand-ins for the helpers of the cursor path: the node at an offset inside the text
  is the offset itself, and its path is the one index segment of that offset.
\<close>

definition exampleNodeAtCursor :: "(int, unit) EditorState \<Rightarrow> nat \<Rightarrow> nat option" where
  "exampleNodeAtCursor s pos =
     (if pos < length (toString (state_doc s)) then Some pos else None)"

definition exampleGetPathAtNode ::
  "(int, unit) EditorState \<Rightarrow> nat \<Rightarrow> PathSegment list option" where
  "exampleGetPathAtNode s n = Some [Index (int n)]"

section \<open>Arithmetic of the type number: properties\<close>

declare bitLength.simps [simp del]

lemma roundToDouble_small: "\<bar>x\<bar> < 9007199254740992 \<Longrightarrow> roundToDouble x = x"
  unfolding roundToDouble_def Let_def by (simp only: if_True)

lemma roundToDouble_exact: "\<bar>x\<bar> \<le> 9007199254740992 \<Longrightarrow> roundToDouble x = x"
proof -
  assume bound: "\<bar>x\<bar> \<le> 9007199254740992"
  have top: "roundToDouble 9007199254740992 = 9007199254740992"
    by code_simp
  have bottom: "roundToDouble (- 9007199254740992) = - 9007199254740992"
    by code_simp
  from bound consider "\<bar>x\<bar> < 9007199254740992"
    | "x = 9007199254740992" | "x = - 9007199254740992"
    by linarith
  then show ?thesis
  proof cases
    case 1
    then show ?thesis by (rule roundToDouble_small)
  next
    case 2
    then show ?thesis using top by (simp only:)
  next
    case 3
    then show ?thesis using bottom by (simp only:)
  qed
qed

lemma offset_exact:
  assumes "\<bar>a + c\<bar> < 9007199254740992"
  shows "jsMinus (jsPlus a c) 1 = a + c - 1"
proof -
  from assms have "jsPlus a c = a + c"
    unfolding jsPlus_def by (rule roundToDouble_small)
  moreover from assms have "\<bar>a + c - 1\<bar> \<le> 9007199254740992"
    by linarith
  ultimately show ?thesis
    unfolding jsMinus_def by (simp only: roundToDouble_exact)
qed


section \<open>The document: properties\<close>

declare show_nat.simps [simp del]

lemma line_in_document:
  assumes "1 \<le> l" and "l \<le> int (lines doc)"
  shows "line doc l =
           Inr \<lparr>line_from = sum_list (map (\<lambda>s. length s + 1) (take (nat l - 1) doc)),
                line_to = sum_list (map (\<lambda>s. length s + 1) (take (nat l - 1) doc))
                            + length (doc ! (nat l - 1)),
                line_number = nat l, line_text = doc ! (nat l - 1)\<rparr>"
  using assms by (simp add: line_def Let_def)

lemma line_outside_document:
  assumes "l < 1 \<or> int (lines doc) < l"
  shows "\<exists>x. line doc l = Inl x \<and> name x = ''RangeError''"
  using assms by (auto simp add: line_def RangeError_def)

lemma line_returns_iff: "(\<exists>ln. line doc l = Inr ln) \<longleftrightarrow> 1 \<le> l \<and> l \<le> int (lines doc)"
  by (auto simp add: line_def Let_def)

lemma doc_length_toString: "doc \<noteq> [] \<Longrightarrow> length (toString doc) = doc_length doc"
proof (induction doc rule: toString.induct)
  case 1
  then show ?case by simp
next
  case (2 l)
  then show ?case by (simp add: doc_length_def)
next
  case (3 l v va)
  then show ?case by (simp add: doc_length_def)
qed

lemma toString_drop_lines:
  "k < length doc \<Longrightarrow>
     drop (sum_list (map (\<lambda>s. length s + 1) (take k doc))) (toString doc)
       = toString (drop k doc)"
proof (induction doc arbitrary: k rule: toString.induct)
  case 1
  then show ?case by simp
next
  case (2 l)
  then show ?case by simp
next
  case (3 l v va)
  show ?case
  proof (cases k)
    case 0
    then show ?thesis by simp
  next
    case (Suc j)
    with "3.prems" have "j < length (v # va)" by simp
    from "3.IH" [OF this] Suc show ?thesis by simp
  qed
qed

lemma toString_starts_with_first_line: "doc \<noteq> [] \<Longrightarrow> take (length (hd doc)) (toString doc) = hd doc"
  by (induction doc rule: toString.induct) simp_all

lemma line_from_is_offset_of_line:
  assumes "line doc l = Inr ln"
  shows "take (length (line_text ln)) (drop (line_from ln) (toString doc)) = line_text ln"
proof -
  from assms have range: "1 \<le> l" "l \<le> int (lines doc)"
    using line_returns_iff [of doc l] by auto
  define k where "k = nat l - 1"
  from range have k: "k < length doc"
    by (simp add: k_def lines_def)
  from assms range have ln: "line_from ln = sum_list (map (\<lambda>s. length s + 1) (take k doc))"
    "line_text ln = doc ! k"
    by (auto simp add: line_in_document k_def)
  from k have "drop k doc \<noteq> []" by simp
  moreover from k have "hd (drop k doc) = doc ! k" by (simp add: hd_drop_conv_nth)
  ultimately show ?thesis
    using toString_drop_lines [OF k] toString_starts_with_first_line [of "drop k doc"]
    by (simp add: ln)
qed

section \<open>The linter: the paths of the code\<close>

lemma handleParseError_located:
  assumes "lineNumber e = Some l" and "columnNumber e = Some c"
    and "line doc l = Inr ln"
  shows "handleParseError doc e =
           Inr [errorDiagnosticAt
                  (min (jsMinus (jsPlus (int (line_from ln)) c) 1) (int (doc_length doc))) e]"
  using assms by (simp add: handleParseError_def errorDiagnosticAt_def)

lemma handleParseError_unlocated:
  assumes "lineNumber e = None \<or> columnNumber e = None"
  shows "handleParseError doc e = Inr [errorDiagnosticAt 0 e]"
  using assms
  by (auto simp add: handleParseError_def errorDiagnosticAt_def split: option.splits)

lemma handleParseError_throws:
  assumes "lineNumber e = Some l" and "columnNumber e = Some c"
    and "line doc l = Inl x"
  shows "handleParseError doc e = Inl x"
  using assms by (simp add: handleParseError_def)

lemma handleParseError_returns:
  assumes "lineInDocument doc e"
  shows "\<exists>pos. handleParseError doc e = Inr [errorDiagnosticAt pos e]"
proof (cases "lineNumber e = None \<or> columnNumber e = None")
  case True
  then show ?thesis using handleParseError_unlocated by blast
next
  case False
  then obtain l c where lc: "lineNumber e = Some l" "columnNumber e = Some c" by auto
  with assms have "1 \<le> l \<and> l \<le> int (lines doc)" by (simp add: lineInDocument_def)
  then obtain ln where "line doc l = Inr ln" using line_returns_iff by blast
  with lc show ?thesis using handleParseError_located by blast
qed

lemma handleParseError_result:
  assumes "handleParseError doc e = Inr ds"
  shows "\<exists>pos. ds = [errorDiagnosticAt pos e]"
  using assms
  by (auto simp add: handleParseError_def errorDiagnosticAt_def split: option.splits sum.splits)

lemma lint_cached_error:
  assumes "parseCacheField (view_state view) = Some (Some c)" and "err c = Some e"
  shows "json5ParseLinter parse structureLinter view
           = reportParseError (state_doc (view_state view)) e"
  using assms by (simp add: json5ParseLinter_def)

lemma lint_cached_value:
  assumes "parseCacheField (view_state view) = Some (Some c)"
    and "err c = None" and "obj c = Some v"
  shows "json5ParseLinter parse structureLinter view
           = callStructureLinter structureLinter view v"
  using assms by (simp add: json5ParseLinter_def)

lemma lint_fresh_parse:
  assumes "reachesFreshParse view"
  shows "json5ParseLinter parse structureLinter view
           = freshParseLint parse structureLinter view"
  using assms
  by (auto simp add: json5ParseLinter_def reachesFreshParse_def split: option.splits)

lemma noCacheEntry_initially:
  "parseCacheField (view_state view) = Some json5ParseCache_create \<Longrightarrow> noCacheEntry view"
  by (simp add: noCacheEntry_def json5ParseCache_create_def)

lemma noCacheEntry_reachesFreshParse: "noCacheEntry view \<Longrightarrow> reachesFreshParse view"
  by (auto simp add: noCacheEntry_def reachesFreshParse_def)

lemma freshParseLint_failure:
  assumes "parse (toString (state_doc (view_state view))) = Inl e"
  shows "freshParseLint parse structureLinter view
           = reportParseError (state_doc (view_state view)) e"
  using assms by (simp add: freshParseLint_def)

lemma freshParseLint_success:
  assumes "parse (toString (state_doc (view_state view))) = Inr v"
    and "callStructureLinter structureLinter view v = Inr r"
  shows "freshParseLint parse structureLinter view = Inr r"
  using assms by (simp add: freshParseLint_def)

lemma freshParseLint_linter_throws:
  assumes "parse (toString (state_doc (view_state view))) = Inr v"
    and "callStructureLinter structureLinter view v = Inl x"
  shows "freshParseLint parse structureLinter view
           = reportParseError (state_doc (view_state view)) x"
  using assms by (simp add: freshParseLint_def)

lemma lint_error_source:
  assumes "(\<exists>c. parseCacheField (view_state view) = Some (Some c) \<and> err c = Some e)
           \<or> (reachesFreshParse view
               \<and> parse (toString (state_doc (view_state view))) = Inl e)"
  shows "json5ParseLinter parse structureLinter view
           = reportParseError (state_doc (view_state view)) e"
  using assms lint_cached_error lint_fresh_parse freshParseLint_failure
  by metis

section \<open>The parse cache: properties\<close>

text \<open>
  C1. When a transaction changes the document and the new text does not parse, the
  updated cache holds the new parse error together with the value of the previous
  cache state; with no previous state, or none with a value, the value is undefined.
\<close>

theorem parse_cache_keeps_value_on_failure:
  assumes "docChanged tx"
    and "parse (toString (newDoc tx)) = Inl e"
  shows "json5ParseCache_update parse oldValue tx =
           Inr (Some \<lparr>err = Some e,
                      obj = (case oldValue of None \<Rightarrow> None | Some c \<Rightarrow> obj c)\<rparr>)"
  using assms by (simp add: json5ParseCache_update_def)

theorem parse_cache_keeps_value_on_failure_witness:
  "docChanged (exampleTx True [''{''] 1)
   \<and> exampleParse (toString (newDoc (exampleTx True [''{''] 1))) = Inl exampleError
   \<and> json5ParseCache_update exampleParse (Some \<lparr>err = None, obj = Some 1\<rparr>)
         (exampleTx True [''{''] 1)
       = Inr (Some \<lparr>err = Some exampleError, obj = Some 1\<rparr>)
   \<and> json5ParseCache_update exampleParse None (exampleTx True [''{''] 1)
       = Inr (Some \<lparr>err = Some exampleError, obj = None\<rparr>)"
proof -
  have changed: "docChanged (exampleTx True [''{''] 1)"
    by (simp add: exampleTx_def)
  have fails: "exampleParse (toString (newDoc (exampleTx True [''{''] 1))) = Inl exampleError"
    by (simp add: exampleTx_def exampleParse_def)
  show ?thesis
    using changed fails
      parse_cache_keeps_value_on_failure [where parse = exampleParse
        and tx = "exampleTx True [''{''] 1" and e = exampleError
        and oldValue = "Some \<lparr>err = None, obj = Some 1\<rparr>"]
      parse_cache_keeps_value_on_failure [where parse = exampleParse
        and tx = "exampleTx True [''{''] 1" and e = exampleError
        and oldValue = None]
    by simp
qed

text \<open>
  C2. A transaction that does not change the document leaves the parse cache as it
  was: the update returns the previous cache state itself, whatever the parser would
  say of the new document (nothing is parsed).
\<close>

theorem parse_cache_unchanged_without_doc_change:
  "\<not> docChanged tx \<Longrightarrow> json5ParseCache_update parse oldValue tx = Inr oldValue"
  by (simp add: json5ParseCache_update_def)

theorem parse_cache_unchanged_without_doc_change_witness:
  "\<not> docChanged (exampleTx False [''{''] 1)
   \<and> json5ParseCache_update exampleParse (Some \<lparr>err = None, obj = Some 1\<rparr>)
         (exampleTx False [''{''] 1)
       = Inr (Some \<lparr>err = None, obj = Some 1\<rparr>)"
proof -
  have unchanged: "\<not> docChanged (exampleTx False [''{''] 1)"
    by (simp add: exampleTx_def)
  show ?thesis
    using unchanged
      parse_cache_unchanged_without_doc_change [OF unchanged, where parse = exampleParse
        and oldValue = "Some \<lparr>err = None, obj = Some 1\<rparr>"]
    by simp
qed

text \<open>
  C3. When a transaction changes the document and the new text parses, the updated
  cache has no error and holds the value parsed from the whole new text; the result
  is the same for every previous cache state.
\<close>

theorem parse_cache_replaced_on_success:
  assumes "docChanged tx"
    and "parse (toString (newDoc tx)) = Inr parsed"
  shows "json5ParseCache_update parse oldValue tx = Inr (Some \<lparr>err = None, obj = Some parsed\<rparr>)
         \<and> json5ParseCache_update parse oldValue' tx = json5ParseCache_update parse oldValue tx"
  using assms by (simp add: json5ParseCache_update_def)

theorem parse_cache_replaced_on_success_witness:
  "docChanged (exampleTx True [''1''] 1)
   \<and> exampleParse (toString (newDoc (exampleTx True [''1''] 1))) = Inr 1
   \<and> json5ParseCache_update exampleParse (Some \<lparr>err = Some exampleError, obj = Some 7\<rparr>)
         (exampleTx True [''1''] 1)
       = Inr (Some \<lparr>err = None, obj = Some 1\<rparr>)"
proof -
  have changed: "docChanged (exampleTx True [''1''] 1)"
    by (simp add: exampleTx_def)
  have parses: "exampleParse (toString (newDoc (exampleTx True [''1''] 1))) = Inr 1"
    by (simp add: exampleTx_def exampleParse_def)
  show ?thesis
    using changed parses
      parse_cache_replaced_on_success [where parse = exampleParse
        and tx = "exampleTx True [''1''] 1" and parsed = 1
        and oldValue = "Some \<lparr>err = Some exampleError, obj = Some 7\<rparr>"]
    by simp
qed

lemma reportParseError_located:
  assumes "lineNumber e = Some l" and "columnNumber e = Some c"
    and "line doc l = Inr ln"
  shows "reportParseError doc e =
           Inr (Diagnostics
             [\<lparr>diag_from = min (jsMinus (jsPlus (int (line_from ln)) c) 1)
                              (int (doc_length doc)),
               diag_to = min (jsMinus (jsPlus (int (line_from ln)) c) 1)
                            (int (doc_length doc)),
               diag_message = message e, severity = Error\<rparr>])"
  using handleParseError_located [OF assms]
  by (simp add: reportParseError_def errorDiagnosticAt_def)

lemma reportParseError_unlocated:
  assumes "lineNumber e = None \<or> columnNumber e = None"
  shows "reportParseError doc e =
           Inr (Diagnostics
             [\<lparr>diag_from = 0, diag_to = 0, diag_message = message e, severity = Error\<rparr>])"
  using handleParseError_unlocated [OF assms]
  by (simp add: reportParseError_def errorDiagnosticAt_def)

lemma reportParseError_throws:
  assumes "lineNumber e = Some l" and "columnNumber e = Some c"
    and "line doc l = Inl y"
  shows "reportParseError doc e = Inl y"
  using handleParseError_throws [OF assms] by (simp add: reportParseError_def)

section \<open>The linter: properties\<close>




text \<open>
  C9. A parse error that lacks the \<open>lineNumber\<close> field or the \<open>columnNumber\<close> field
  still gives exactly one zero-width error diagnostic, at offset 0 of the document,
  whether the error comes from the cache entry or from the linter's own parse.
\<close>

theorem lint_reports_unlocated_error_at_offset_zero:
  assumes "lineNumber e = None \<or> columnNumber e = None"
    and "(\<exists>entry. parseCacheField (view_state view) = Some (Some entry) \<and> err entry = Some e)
         \<or> (reachesFreshParse view
             \<and> parse (toString (state_doc (view_state view))) = Inl e)"
  shows "json5ParseLinter parse structureLinter view =
           Inr (Diagnostics
             [\<lparr>diag_from = 0, diag_to = 0, diag_message = message e, severity = Error\<rparr>])"
proof -
  have "json5ParseLinter parse structureLinter view
          = reportParseError (state_doc (view_state view)) e"
    using assms(2) by (rule lint_error_source)
  then show ?thesis
    using handleParseError_unlocated [OF assms(1)]
    by (simp add: reportParseError_def errorDiagnosticAt_def)
qed

theorem lint_reports_unlocated_error_at_offset_zero_witness:
  "json5ParseLinter exampleParse (None :: (int, unit, unit) StructureLinter option)
       (exampleView [''[1,'', ''  }'']
          (Some (Some \<lparr>err = Some (exampleError\<lparr>message := ''boom'', columnNumber := None\<rparr>),
                       obj = None\<rparr>)))
     = Inr (Diagnostics
         [\<lparr>diag_from = 0, diag_to = 0, diag_message = ''boom'', severity = Error\<rparr>])
   \<and> json5ParseLinter
       (\<lambda>s. Inl \<lparr>name = ''Error'', message = ''no position'', lineNumber = None,
                 columnNumber = None\<rparr> :: JsError + int)
       (None :: (int, unit, unit) StructureLinter option)
       (exampleView [''[1,'', ''  }''] (Some None))
     = Inr (Diagnostics
         [\<lparr>diag_from = 0, diag_to = 0, diag_message = ''no position'', severity = Error\<rparr>])"
proof -
  let ?e1 = "exampleError\<lparr>message := ''boom'', columnNumber := None\<rparr>"
  let ?v1 = "exampleView [''[1,'', ''  }''] (Some (Some \<lparr>err = Some ?e1, obj = None\<rparr>))"
  let ?e2 = "\<lparr>name = ''Error'', message = ''no position'', lineNumber = None,
              columnNumber = None\<rparr>"
  let ?p2 = "\<lambda>s::string. Inl ?e2 :: JsError + int"
  let ?v2 = "exampleView [''[1,'', ''  }''] (Some None)"
  have no1: "lineNumber ?e1 = None \<or> columnNumber ?e1 = None"
    by simp
  have src1: "(\<exists>entry. parseCacheField (view_state ?v1) = Some (Some entry)
                  \<and> err entry = Some ?e1)
              \<or> (reachesFreshParse ?v1
                  \<and> exampleParse (toString (state_doc (view_state ?v1))) = Inl ?e1)"
    by (simp add: exampleView_def exampleState_def)
  have no2: "lineNumber ?e2 = None \<or> columnNumber ?e2 = None"
    by simp
  have src2: "(\<exists>entry. parseCacheField (view_state ?v2) = Some (Some entry)
                  \<and> err entry = Some ?e2)
              \<or> (reachesFreshParse ?v2 \<and> ?p2 (toString (state_doc (view_state ?v2))) = Inl ?e2)"
    by (simp add: exampleView_def exampleState_def reachesFreshParse_def)
  show ?thesis
    using lint_reports_unlocated_error_at_offset_zero
        [where parse = exampleParse and structureLinter = None, OF no1 src1]
      lint_reports_unlocated_error_at_offset_zero
        [where parse = ?p2 and structureLinter = None, OF no2 src2]
    by simp
qed

text \<open>
  C6, as stated, fails. With no cache entry and a parser whose error reports line 3 of
  a document of one line, the linter returns no diagnostic: the \<^verbatim>\<open>RangeError\<close> of
  the line lookup escapes from the handler of the linter's own parse.
\<close>

theorem lint_fresh_parse_line_outside_document_counterexample:
  "json5ParseLinter exampleStrayParse (None :: (int, unit, unit) StructureLinter option)
       (exampleView [''{''] None)
     = Inl (RangeError ''Invalid line number 3 in 1-line document'')"
proof -
  have "show_int 3 = ''3''" and "show_nat 1 = ''1''"
    by code_simp+
  then show ?thesis
    by (simp add: json5ParseLinter_def freshParseLint_def reportParseError_def
        handleParseError_def exampleStrayParse_def exampleView_def exampleState_def
        exampleError_def line_def lines_def)
qed

text \<open>
  C6, amended. With no cache entry (the field is not installed, or still holds its
  initial value), the linter parses the whole document text itself. When that parse
  fails with \<open>e\<close>, the outcome is that of the cached-error case for \<open>e\<close>: if \<open>e\<close> lacks
  the \<open>lineNumber\<close> or the \<open>columnNumber\<close> field, one zero-width error diagnostic with
  the message of \<open>e\<close> at offset 0; if \<open>e\<close> has both and its line number is a line of the
  document, that diagnostic at the line's start plus the column number minus 1 (in the
  arithmetic of the type \<^verbatim>\<open>number\<close>), at most at the document's length; if \<open>e\<close> has
  both and the line lookup throws, the linter throws the same and returns no
  diagnostic. When the parse succeeds with \<open>v\<close>, the result is the empty list if no
  structural linter was supplied, and what the structural linter returns for \<open>v\<close>
  otherwise.
\<close>

theorem lint_without_cache_entry_parses_afresh:
  assumes "noCacheEntry view"
  shows "(parse (toString (state_doc (view_state view))) = Inl e \<longrightarrow>
            json5ParseLinter parse structureLinter view
              = json5ParseLinter parse structureLinter
                  (view\<lparr>view_state := (view_state view)
                     \<lparr>parseCacheField := Some (Some \<lparr>err = Some e, obj = None\<rparr>)\<rparr>\<rparr>)
            \<and> (lineNumber e = None \<or> columnNumber e = None \<longrightarrow>
                 json5ParseLinter parse structureLinter view =
                   Inr (Diagnostics
                     [\<lparr>diag_from = 0, diag_to = 0, diag_message = message e,
                       severity = Error\<rparr>]))
            \<and> (lineNumber e = Some l \<and> columnNumber e = Some c
                 \<and> line (state_doc (view_state view)) l = Inr ln \<longrightarrow>
                 json5ParseLinter parse structureLinter view =
                   Inr (Diagnostics
                     [\<lparr>diag_from = min (jsMinus (jsPlus (int (line_from ln)) c) 1)
                                      (int (doc_length (state_doc (view_state view)))),
                       diag_to = min (jsMinus (jsPlus (int (line_from ln)) c) 1)
                                    (int (doc_length (state_doc (view_state view)))),
                       diag_message = message e,
                       severity = Error\<rparr>]))
            \<and> (lineNumber e = Some l \<and> columnNumber e = Some c
                 \<and> line (state_doc (view_state view)) l = Inl y \<longrightarrow>
                 json5ParseLinter parse structureLinter view = Inl y))
         \<and> (parse (toString (state_doc (view_state view))) = Inr v \<longrightarrow>
              (structureLinter = None \<longrightarrow>
                 json5ParseLinter parse structureLinter view = Inr (Diagnostics []))
              \<and> (\<forall>f r. structureLinter = Some f \<longrightarrow> f view v = Inr r \<longrightarrow>
                    json5ParseLinter parse structureLinter view = Inr r))"
proof -
  let ?doc = "state_doc (view_state view)"
  let ?cached = "view\<lparr>view_state := (view_state view)
                     \<lparr>parseCacheField := Some (Some \<lparr>err = Some e, obj = None\<rparr>)\<rparr>\<rparr>"
  have fresh: "json5ParseLinter parse structureLinter view
                 = freshParseLint parse structureLinter view"
    using assms by (simp add: lint_fresh_parse noCacheEntry_reachesFreshParse)
  have failure: "json5ParseLinter parse structureLinter view
              = json5ParseLinter parse structureLinter ?cached
            \<and> (lineNumber e = None \<or> columnNumber e = None \<longrightarrow>
                 json5ParseLinter parse structureLinter view =
                   Inr (Diagnostics
                     [\<lparr>diag_from = 0, diag_to = 0, diag_message = message e,
                       severity = Error\<rparr>]))
            \<and> (lineNumber e = Some l \<and> columnNumber e = Some c \<and> line ?doc l = Inr ln \<longrightarrow>
                 json5ParseLinter parse structureLinter view =
                   Inr (Diagnostics
                     [\<lparr>diag_from = min (jsMinus (jsPlus (int (line_from ln)) c) 1)
                                      (int (doc_length ?doc)),
                       diag_to = min (jsMinus (jsPlus (int (line_from ln)) c) 1)
                                    (int (doc_length ?doc)),
                       diag_message = message e,
                       severity = Error\<rparr>]))
            \<and> (lineNumber e = Some l \<and> columnNumber e = Some c \<and> line ?doc l = Inl y \<longrightarrow>
                 json5ParseLinter parse structureLinter view = Inl y)"
    if fails: "parse (toString ?doc) = Inl e"
  proof -
    have here: "json5ParseLinter parse structureLinter view = reportParseError ?doc e"
      using fresh fails by (simp add: freshParseLint_failure)
    have there: "json5ParseLinter parse structureLinter ?cached = reportParseError ?doc e"
      by (simp add: json5ParseLinter_def)
    from here there show ?thesis
      by (simp add: reportParseError_unlocated reportParseError_located
          reportParseError_throws)
  qed
  have success: "(structureLinter = None \<longrightarrow>
                 json5ParseLinter parse structureLinter view = Inr (Diagnostics []))
              \<and> (\<forall>f r. structureLinter = Some f \<longrightarrow> f view v = Inr r \<longrightarrow>
                    json5ParseLinter parse structureLinter view = Inr r)"
    if parses: "parse (toString ?doc) = Inr v"
    using fresh parses by (auto simp add: freshParseLint_def callStructureLinter_def)
  from failure success show ?thesis by blast
qed

theorem lint_without_cache_entry_parses_afresh_witness:
  "noCacheEntry (exampleView [''{''] None)
   \<and> exampleParse (toString (state_doc (view_state (exampleView [''{''] None))))
       = Inl exampleError
   \<and> json5ParseLinter exampleParse (None :: (int, unit, unit) StructureLinter option)
         (exampleView [''{''] None)
       = json5ParseLinter exampleParse None
           (exampleView [''{''] (Some (Some \<lparr>err = Some exampleError, obj = None\<rparr>)))
   \<and> json5ParseLinter exampleParse (None :: (int, unit, unit) StructureLinter option)
         (exampleView [''{''] None)
       = Inr (Diagnostics
           [\<lparr>diag_from = 1, diag_to = 1,
             diag_message = ''JSON5: invalid end of input at 1:2'', severity = Error\<rparr>])
   \<and> json5ParseLinter
         (\<lambda>s. Inl (exampleError\<lparr>columnNumber := None\<rparr>) :: JsError + int)
         (None :: (int, unit, unit) StructureLinter option)
         (exampleView [''{''] (Some None))
       = Inr (Diagnostics
           [\<lparr>diag_from = 0, diag_to = 0,
             diag_message = ''JSON5: invalid end of input at 1:2'', severity = Error\<rparr>])
   \<and> json5ParseLinter
         (\<lambda>s. Inl (exampleError\<lparr>lineNumber := Some 0\<rparr>) :: JsError + int)
         (None :: (int, unit, unit) StructureLinter option)
         (exampleView [''{''] (Some None))
       = Inl (RangeError ''Invalid line number 0 in 1-line document'')
   \<and> noCacheEntry (exampleView [''1''] (Some None))
   \<and> exampleParse (toString (state_doc (view_state (exampleView [''1''] (Some None)))))
       = Inr 1
   \<and> json5ParseLinter exampleParse (None :: (int, unit, unit) StructureLinter option)
         (exampleView [''1''] (Some None))
       = Inr (Diagnostics [])
   \<and> json5ParseLinter exampleParse
         (Some (\<lambda>view parsed. Inr (Pending parsed)) :: (int, unit, int) StructureLinter option)
         (exampleView [''1''] (Some None))
       = Inr (Pending 1)"
proof -
  let ?none = "None :: (int, unit, unit) StructureLinter option"
  let ?v1 = "exampleView [''{''] None"
  let ?v2 = "exampleView [''1''] (Some None)"
  let ?v3 = "exampleView [''{''] (Some None)"
  let ?f = "(\<lambda>view parsed. Inr (Pending parsed)) :: (int, unit, int) StructureLinter"
  let ?eu = "exampleError\<lparr>columnNumber := None\<rparr>"
  let ?pu = "\<lambda>s::string. Inl ?eu :: JsError + int"
  let ?e0 = "exampleError\<lparr>lineNumber := Some 0\<rparr>"
  let ?p0 = "\<lambda>s::string. Inl ?e0 :: JsError + int"
  have n1: "noCacheEntry ?v1" and n2: "noCacheEntry ?v2" and n3: "noCacheEntry ?v3"
    by (simp_all add: noCacheEntry_def exampleView_def exampleState_def)
  have fails: "exampleParse (toString (state_doc (view_state ?v1))) = Inl exampleError"
    by (simp add: exampleView_def exampleState_def exampleParse_def)
  have parses: "exampleParse (toString (state_doc (view_state ?v2))) = Inr 1"
    by (simp add: exampleView_def exampleState_def exampleParse_def)
  have same: "?v1\<lparr>view_state := (view_state ?v1)
                 \<lparr>parseCacheField := Some (Some \<lparr>err = Some exampleError, obj = None\<rparr>)\<rparr>\<rparr>
              = exampleView [''{''] (Some (Some \<lparr>err = Some exampleError, obj = None\<rparr>))"
    by (simp add: exampleView_def exampleState_def)
  have fields: "lineNumber exampleError = Some 1" "columnNumber exampleError = Some 2"
    "message exampleError = ''JSON5: invalid end of input at 1:2''"
    by (simp_all add: exampleError_def)
  have ln1: "line (state_doc (view_state ?v1)) 1
               = Inr \<lparr>line_from = 0, line_to = 1, line_number = 1, line_text = ''{''\<rparr>"
    by (simp add: exampleView_def exampleState_def line_def lines_def)
  have offset: "jsMinus (jsPlus 0 2) 1 = 1"
    using offset_exact [of 0 2] by simp
  have len1: "doc_length (state_doc (view_state ?v1)) = 1"
    by (simp add: exampleView_def exampleState_def doc_length_def)
  have shown: "show_int 0 = ''0''" "show_nat 1 = ''1''"
    by code_simp+
  have ln0: "line (state_doc (view_state ?v3)) 0
               = Inl (RangeError ''Invalid line number 0 in 1-line document'')"
    using shown by (simp add: exampleView_def exampleState_def line_def lines_def)
  note failing = lint_without_cache_entry_parses_afresh [where parse = exampleParse
        and structureLinter = ?none and e = exampleError and v = 0 and l = 1 and c = 2
        and ln = "\<lparr>line_from = 0, line_to = 1, line_number = 1, line_text = ''{''\<rparr>",
        OF n1, THEN conjunct1, THEN mp, OF fails]
  have first: "json5ParseLinter exampleParse ?none ?v1
       = json5ParseLinter exampleParse ?none
           (exampleView [''{''] (Some (Some \<lparr>err = Some exampleError, obj = None\<rparr>)))"
    using failing [THEN conjunct1] by (simp only: same)
  have first': "json5ParseLinter exampleParse ?none ?v1
       = Inr (Diagnostics
           [\<lparr>diag_from = 1, diag_to = 1,
             diag_message = ''JSON5: invalid end of input at 1:2'', severity = Error\<rparr>])"
    using failing [THEN conjunct2, THEN conjunct2, THEN conjunct1, THEN mp,
        OF conjI [OF fields(1) conjI [OF fields(2) ln1]]]
    by (simp add: offset len1 fields(3))
  have unlocated: "lineNumber ?eu = None \<or> columnNumber ?eu = None"
    by simp
  have fails_u: "?pu (toString (state_doc (view_state ?v3))) = Inl ?eu"
    by simp
  have second: "json5ParseLinter ?pu ?none ?v3
       = Inr (Diagnostics
           [\<lparr>diag_from = 0, diag_to = 0,
             diag_message = ''JSON5: invalid end of input at 1:2'', severity = Error\<rparr>])"
    using lint_without_cache_entry_parses_afresh [where parse = ?pu
        and structureLinter = ?none and e = ?eu and v = 0, OF n3,
        THEN conjunct1, THEN mp, OF fails_u,
        THEN conjunct2, THEN conjunct1, THEN mp, OF unlocated]
    by (simp add: exampleError_def)
  have fails_0: "?p0 (toString (state_doc (view_state ?v3))) = Inl ?e0"
    by simp
  have fields_0: "lineNumber ?e0 = Some 0 \<and> columnNumber ?e0 = Some 2
      \<and> line (state_doc (view_state ?v3)) 0
          = Inl (RangeError ''Invalid line number 0 in 1-line document'')"
    using ln0 by (simp add: exampleError_def)
  have third: "json5ParseLinter ?p0 ?none ?v3
       = Inl (RangeError ''Invalid line number 0 in 1-line document'')"
    using lint_without_cache_entry_parses_afresh [where parse = ?p0
        and structureLinter = ?none and e = ?e0 and v = 0 and l = 0 and c = 2
        and y = "RangeError ''Invalid line number 0 in 1-line document''", OF n3,
        THEN conjunct1, THEN mp, OF fails_0,
        THEN conjunct2, THEN conjunct2, THEN conjunct2, THEN mp, OF fields_0]
    by simp
  have fourth: "json5ParseLinter exampleParse ?none ?v2 = Inr (Diagnostics [])"
    using lint_without_cache_entry_parses_afresh [where parse = exampleParse
        and structureLinter = ?none and e = exampleError and v = 1, OF n2,
        THEN conjunct2, THEN mp, OF parses]
    by simp
  have fifth: "json5ParseLinter exampleParse (Some ?f) ?v2 = Inr (Pending 1)"
    using lint_without_cache_entry_parses_afresh [where parse = exampleParse
        and structureLinter = "Some ?f" and e = exampleError and v = 1, OF n2,
        THEN conjunct2, THEN mp, OF parses]
    by simp
  from n1 n2 fails parses first first' second third fourth fifth show ?thesis
    by (intro conjI)
qed

text \<open>
  C7. With a cache entry that holds a value and no error, the linter calls the
  structural linter, if one was supplied, with the cached value and returns exactly
  what it produces; without a structural linter it returns the empty list. The parser
  is not consulted. A structural linter that always returns the empty list thus gives
  no diagnostics.
\<close>

theorem lint_with_cached_value_calls_structure_linter:
  assumes "parseCacheField (view_state view) = Some (Some entry)"
    and "err entry = None" and "obj entry = Some v"
  shows "json5ParseLinter parse structureLinter view =
           (case structureLinter of
              None \<Rightarrow> Inr (Diagnostics [])
            | Some f \<Rightarrow> f view v)"
  using lint_cached_value [OF assms] by (simp add: callStructureLinter_def)

theorem lint_with_cached_value_calls_structure_linter_witness:
  "json5ParseLinter exampleParse
       (Some (\<lambda>view parsed. Inr (Diagnostics [])) :: (int, unit, unit) StructureLinter option)
       (exampleView [''{''] (Some (Some \<lparr>err = None, obj = Some 5\<rparr>)))
     = Inr (Diagnostics [])
   \<and> json5ParseLinter exampleParse
       (None :: (int, unit, unit) StructureLinter option)
       (exampleView [''{''] (Some (Some \<lparr>err = None, obj = Some 5\<rparr>)))
     = Inr (Diagnostics [])
   \<and> json5ParseLinter exampleParse
       (Some (\<lambda>view parsed. Inr (Diagnostics
          [\<lparr>diag_from = 0, diag_to = parsed, diag_message = ''too big'',
            severity = Warning\<rparr>])) :: (int, unit, unit) StructureLinter option)
       (exampleView [''{''] (Some (Some \<lparr>err = None, obj = Some 5\<rparr>)))
     = Inr (Diagnostics
         [\<lparr>diag_from = 0, diag_to = 5, diag_message = ''too big'', severity = Warning\<rparr>])"
proof -
  let ?entry = "\<lparr>err = None, obj = Some (5::int)\<rparr>"
  let ?view = "exampleView [''{''] (Some (Some ?entry))"
  have cached: "parseCacheField (view_state ?view) = Some (Some ?entry)"
    by (simp add: exampleView_def exampleState_def)
  have no_error: "err ?entry = None" and val: "obj ?entry = Some 5"
    by simp_all
  show ?thesis
    using lint_with_cached_value_calls_structure_linter [where parse = exampleParse
        and structureLinter = "Some (\<lambda>view parsed. Inr (Diagnostics []))
              :: (int, unit, unit) StructureLinter option", OF cached no_error val]
      lint_with_cached_value_calls_structure_linter [where parse = exampleParse
        and structureLinter = "None :: (int, unit, unit) StructureLinter option",
        OF cached no_error val]
      lint_with_cached_value_calls_structure_linter [where parse = exampleParse
        and structureLinter = "Some (\<lambda>view parsed. Inr (Diagnostics
          [\<lparr>diag_from = 0, diag_to = parsed, diag_message = ''too big'',
            severity = Warning\<rparr>])) :: (int, unit, unit) StructureLinter option",
        OF cached no_error val]
    by simp
qed

text \<open>
  C5, as stated, fails: a cache entry whose error reports line 2 of a document of one
  line makes the linter throw the \<^verbatim>\<open>RangeError\<close> of the line lookup.
\<close>

theorem lint_throws_for_line_outside_document_counterexample:
  "json5ParseLinter exampleParse (None :: (int, unit, unit) StructureLinter option)
       (exampleView [''{'']
          (Some (Some \<lparr>err = Some (exampleError\<lparr>lineNumber := Some 2\<rparr>), obj = None\<rparr>)))
     = Inl (RangeError ''Invalid line number 2 in 1-line document'')"
proof -
  have "show_int 2 = ''2''" and "show_nat 1 = ''1''"
    by code_simp+
  then show ?thesis
    by (simp add: json5ParseLinter_def reportParseError_def handleParseError_def
        exampleView_def exampleState_def exampleError_def line_def lines_def)
qed

text \<open>
  C5, amended. The parse cache update returns for every parser, previous state and
  transaction; when the transaction changes the document and the parser throws \<open>e\<close>,
  the returned state has \<open>e\<close> as its error and the previous state's value (undefined
  without one) as its value. When the linter has an error \<open>e\<close> to place (the one of the
  cache entry, or the one of its own parse) and \<open>e\<close> lacks a position field or reports a
  line of the document, the linter returns exactly one zero-width error diagnostic with
  the message of \<open>e\<close>: at offset 0 when a field is missing, and otherwise at the line's
  start plus the column number minus 1 (in the arithmetic of the type \<^verbatim>\<open>number\<close>), at
  most at the document's length. The linter returns whenever every error it can have
  to place is of that kind and the structural linter itself does not throw. When the
  error to place has both position fields and a line number outside the document, the
  linter throws a \<^verbatim>\<open>RangeError\<close>.
\<close>

theorem no_exception_escapes_when_line_in_document:
  "(\<exists>s. json5ParseCache_update parse oldValue tx = Inr s)
   \<and> (docChanged tx \<and> parse (toString (newDoc tx)) = Inl e \<longrightarrow>
        json5ParseCache_update parse oldValue tx =
          Inr (Some \<lparr>err = Some e,
                     obj = (case oldValue of None \<Rightarrow> None | Some entry \<Rightarrow> obj entry)\<rparr>))
   \<and> (((\<exists>entry. parseCacheField (view_state view) = Some (Some entry) \<and> err entry = Some x)
         \<or> (reachesFreshParse view
             \<and> parse (toString (state_doc (view_state view))) = Inl x))
        \<and> lineInDocument (state_doc (view_state view)) x
       \<longrightarrow> (\<exists>pos. json5ParseLinter parse structureLinter view =
                      Inr (Diagnostics
                        [\<lparr>diag_from = pos, diag_to = pos, diag_message = message x,
                          severity = Error\<rparr>])
                 \<and> ((lineNumber x = None \<or> columnNumber x = None) \<and> pos = 0
                      \<or> (\<exists>l c ln. lineNumber x = Some l \<and> columnNumber x = Some c
                            \<and> line (state_doc (view_state view)) l = Inr ln
                            \<and> pos = min (jsMinus (jsPlus (int (line_from ln)) c) 1)
                                        (int (doc_length (state_doc (view_state view))))))))
   \<and> ((\<forall>entry e. parseCacheField (view_state view) = Some (Some entry) \<longrightarrow>
                   err entry = Some e \<longrightarrow> lineInDocument (state_doc (view_state view)) e)
        \<and> (\<forall>e. parse (toString (state_doc (view_state view))) = Inl e \<longrightarrow>
                   lineInDocument (state_doc (view_state view)) e)
        \<and> (\<forall>f v. structureLinter = Some f \<longrightarrow> (\<exists>r. f view v = Inr r))
       \<longrightarrow> (\<exists>r. json5ParseLinter parse structureLinter view = Inr r))
   \<and> (((\<exists>entry. parseCacheField (view_state view) = Some (Some entry) \<and> err entry = Some x)
         \<or> (reachesFreshParse view
             \<and> parse (toString (state_doc (view_state view))) = Inl x))
        \<and> \<not> lineInDocument (state_doc (view_state view)) x
       \<longrightarrow> (\<exists>y. json5ParseLinter parse structureLinter view = Inl y
                 \<and> name y = ''RangeError''))"
proof (intro conjI impI)
  show "\<exists>s. json5ParseCache_update parse oldValue tx = Inr s"
    by (simp add: json5ParseCache_update_def split: sum.splits)
next
  assume "docChanged tx \<and> parse (toString (newDoc tx)) = Inl e"
  then show "json5ParseCache_update parse oldValue tx =
          Inr (Some \<lparr>err = Some e,
                     obj = (case oldValue of None \<Rightarrow> None | Some entry \<Rightarrow> obj entry)\<rparr>)"
    by (simp add: json5ParseCache_update_def)
next
  let ?doc = "state_doc (view_state view)"
  assume hyps: "((\<exists>entry. parseCacheField (view_state view) = Some (Some entry)
                     \<and> err entry = Some x)
         \<or> (reachesFreshParse view \<and> parse (toString ?doc) = Inl x))
        \<and> lineInDocument ?doc x"
  then have lint: "json5ParseLinter parse structureLinter view = reportParseError ?doc x"
    by (simp add: lint_error_source)
  show "\<exists>pos. json5ParseLinter parse structureLinter view =
                      Inr (Diagnostics
                        [\<lparr>diag_from = pos, diag_to = pos, diag_message = message x,
                          severity = Error\<rparr>])
                 \<and> ((lineNumber x = None \<or> columnNumber x = None) \<and> pos = 0
                      \<or> (\<exists>l c ln. lineNumber x = Some l \<and> columnNumber x = Some c
                            \<and> line ?doc l = Inr ln
                            \<and> pos = min (jsMinus (jsPlus (int (line_from ln)) c) 1)
                                        (int (doc_length ?doc))))"
  proof (cases "lineNumber x = None \<or> columnNumber x = None")
    case True
    from reportParseError_unlocated [OF True] lint True show ?thesis
      by auto
  next
    case False
    then obtain l c where lc: "lineNumber x = Some l" "columnNumber x = Some c" by auto
    with hyps have "1 \<le> l \<and> l \<le> int (lines ?doc)" by (simp add: lineInDocument_def)
    then obtain ln where ln: "line ?doc l = Inr ln" using line_returns_iff by blast
    from reportParseError_located [OF lc ln] lint lc ln show ?thesis
      by auto
  qed
next
  let ?doc = "state_doc (view_state view)"
  assume hyps: "(\<forall>entry e. parseCacheField (view_state view) = Some (Some entry) \<longrightarrow>
                   err entry = Some e \<longrightarrow> lineInDocument ?doc e)
        \<and> (\<forall>e. parse (toString ?doc) = Inl e \<longrightarrow> lineInDocument ?doc e)
        \<and> (\<forall>f v. structureLinter = Some f \<longrightarrow> (\<exists>r. f view v = Inr r))"
  have placed: "\<exists>r. reportParseError ?doc e = (Inr r :: JsError + 'e LintResult)"
    if "lineInDocument ?doc e" for e
    using handleParseError_returns [OF that] by (auto simp add: reportParseError_def)
  have called: "\<exists>r. callStructureLinter structureLinter view v = Inr r" for v
    using hyps by (cases structureLinter) (auto simp add: callStructureLinter_def)
  have fresh: "\<exists>r. freshParseLint parse structureLinter view = Inr r"
  proof (cases "parse (toString ?doc)")
    case (Inl e)
    with hyps have "lineInDocument ?doc e" by blast
    from placed [OF this] Inl show ?thesis by (simp add: freshParseLint_failure)
  next
    case (Inr v)
    from called [of v] obtain r where "callStructureLinter structureLinter view v = Inr r" ..
    with Inr show ?thesis by (simp add: freshParseLint_success)
  qed
  show "\<exists>r. json5ParseLinter parse structureLinter view = Inr r"
  proof (cases "reachesFreshParse view")
    case True
    with fresh show ?thesis by (simp add: lint_fresh_parse)
  next
    case False
    then obtain entry where entry: "parseCacheField (view_state view) = Some (Some entry)"
        and used: "err entry \<noteq> None \<or> obj entry \<noteq> None"
      by (auto simp add: reachesFreshParse_def split: option.splits)
    show ?thesis
    proof (cases "err entry")
      case (Some e)
      with entry hyps have "lineInDocument ?doc e" by blast
      from placed [OF this] entry Some show ?thesis by (simp add: lint_cached_error)
    next
      case None
      with used obtain v where "obj entry = Some v" by auto
      with entry None called [of v] show ?thesis by (simp add: lint_cached_value)
    qed
  qed
next
  let ?doc = "state_doc (view_state view)"
  assume hyps: "((\<exists>entry. parseCacheField (view_state view) = Some (Some entry)
                     \<and> err entry = Some x)
         \<or> (reachesFreshParse view \<and> parse (toString ?doc) = Inl x))
        \<and> \<not> lineInDocument ?doc x"
  then have lint: "json5ParseLinter parse structureLinter view = reportParseError ?doc x"
    by (simp add: lint_error_source)
  from hyps obtain l c where lc: "lineNumber x = Some l" "columnNumber x = Some c"
      and outside: "l < 1 \<or> int (lines ?doc) < l"
    by (auto simp add: lineInDocument_def split: option.splits)
  from line_outside_document [OF outside] obtain y
    where y: "line ?doc l = Inl y" "name y = ''RangeError''" by blast
  from handleParseError_throws [OF lc y(1)] lint y(2)
  show "\<exists>y. json5ParseLinter parse structureLinter view = Inl y \<and> name y = ''RangeError''"
    by (simp add: reportParseError_def)
qed

theorem no_exception_escapes_when_line_in_document_witness:
  "parseCacheField (view_state (exampleView [''{'']
          (Some (Some \<lparr>err = Some exampleError, obj = None\<rparr>))))
       = Some (Some \<lparr>err = Some exampleError, obj = None\<rparr>)
   \<and> exampleParse (toString [''{'']) = Inl exampleError
   \<and> lineInDocument [''{''] exampleError
   \<and> (\<exists>r. json5ParseLinter exampleParse
          (Some (\<lambda>view parsed. Inr (Diagnostics [])) :: (int, unit, unit) StructureLinter option)
          (exampleView [''{''] (Some (Some \<lparr>err = Some exampleError, obj = None\<rparr>)))
        = Inr r)
   \<and> (\<exists>pos. json5ParseLinter exampleParse
          (Some (\<lambda>view parsed. Inr (Diagnostics [])) :: (int, unit, unit) StructureLinter option)
          (exampleView [''{''] (Some (Some \<lparr>err = Some exampleError, obj = None\<rparr>)))
        = Inr (Diagnostics
            [\<lparr>diag_from = pos, diag_to = pos,
              diag_message = ''JSON5: invalid end of input at 1:2'', severity = Error\<rparr>]))
   \<and> \<not> lineInDocument [''{''] (exampleError\<lparr>lineNumber := Some 0\<rparr>)
   \<and> (\<exists>y. json5ParseLinter exampleParse
          (Some (\<lambda>view parsed. Inr (Diagnostics [])) :: (int, unit, unit) StructureLinter option)
          (exampleView [''{'']
             (Some (Some \<lparr>err = Some (exampleError\<lparr>lineNumber := Some 0\<rparr>), obj = None\<rparr>)))
        = Inl y \<and> name y = ''RangeError'')
   \<and> (\<exists>s. json5ParseCache_update exampleParse None (exampleTx True [''{''] 1) = Inr s)
   \<and> json5ParseCache_update exampleParse (Some \<lparr>err = None, obj = Some 4\<rparr>)
        (exampleTx True [''{''] 1)
       = Inr (Some \<lparr>err = Some exampleError, obj = Some 4\<rparr>)"
proof -
  let ?f = "Some (\<lambda>view parsed. Inr (Diagnostics []))
              :: (int, unit, unit) StructureLinter option"
  let ?v1 = "exampleView [''{''] (Some (Some \<lparr>err = Some exampleError, obj = None\<rparr>))"
  let ?bad = "exampleError\<lparr>lineNumber := Some 0\<rparr>"
  let ?v2 = "exampleView [''{''] (Some (Some \<lparr>err = Some ?bad, obj = None\<rparr>))"
  let ?tx = "exampleTx True [''{''] 1"
  have inside: "lineInDocument [''{''] exampleError"
    by (simp add: lineInDocument_def exampleError_def lines_def)
  have outside: "\<not> lineInDocument [''{''] ?bad"
    by (simp add: lineInDocument_def exampleError_def lines_def)
  have doc1: "state_doc (view_state ?v1) = [''{'']" and doc2: "state_doc (view_state ?v2) = [''{'']"
    by (simp_all add: exampleView_def exampleState_def)
  have h1: "\<forall>entry e. parseCacheField (view_state ?v1) = Some (Some entry) \<longrightarrow>
              err entry = Some e \<longrightarrow> lineInDocument [''{''] e"
    using inside by (auto simp add: exampleView_def exampleState_def)
  have h2: "\<forall>e. exampleParse (toString [''{'']) = Inl e \<longrightarrow> lineInDocument [''{''] e"
    using inside by (simp add: exampleParse_def)
  have h3: "\<forall>f v. ?f = Some f \<longrightarrow> (\<exists>r. f ?v1 v = Inr r)"
    by simp
  have h4: "\<exists>entry. parseCacheField (view_state ?v2) = Some (Some entry) \<and> err entry = Some ?bad"
    by (simp add: exampleView_def exampleState_def)
  have cached: "parseCacheField (view_state ?v1)
                  = Some (Some \<lparr>err = Some exampleError, obj = None\<rparr>)"
    by (simp add: exampleView_def exampleState_def)
  have h5: "\<exists>entry. parseCacheField (view_state ?v1) = Some (Some entry)
              \<and> err entry = Some exampleError"
    using cached by simp
  have fails: "exampleParse (toString [''{'']) = Inl exampleError"
    by (simp add: exampleParse_def)
  have changed: "docChanged ?tx \<and> exampleParse (toString (newDoc ?tx)) = Inl exampleError"
    by (simp add: exampleTx_def exampleParse_def)
  have msg: "message exampleError = ''JSON5: invalid end of input at 1:2''"
    by (simp add: exampleError_def)
  note good = no_exception_escapes_when_line_in_document [where parse = exampleParse
        and structureLinter = ?f and view = ?v1 and x = exampleError and e = exampleError
        and oldValue = "Some \<lparr>err = None, obj = Some 4\<rparr>" and tx = ?tx]
  note bad = no_exception_escapes_when_line_in_document [where parse = exampleParse
        and structureLinter = ?f and view = ?v2 and x = ?bad and e = exampleError
        and oldValue = None and tx = ?tx]
  have returns: "\<exists>r. json5ParseLinter exampleParse ?f ?v1 = Inr r"
    using h1 h2 h3 good unfolding doc1 by blast
  have one: "\<exists>pos. json5ParseLinter exampleParse ?f ?v1
        = Inr (Diagnostics
            [\<lparr>diag_from = pos, diag_to = pos,
              diag_message = ''JSON5: invalid end of input at 1:2'', severity = Error\<rparr>])"
    using h5 inside good unfolding doc1 msg by blast
  have throws: "\<exists>y. json5ParseLinter exampleParse ?f ?v2 = Inl y \<and> name y = ''RangeError''"
    using h4 outside bad unfolding doc2 by blast
  have update: "\<exists>s. json5ParseCache_update exampleParse None ?tx = Inr s"
    using bad by blast
  have kept: "json5ParseCache_update exampleParse (Some \<lparr>err = None, obj = Some 4\<rparr>) ?tx
       = Inr (Some \<lparr>err = Some exampleError, obj = Some 4\<rparr>)"
    using changed good by simp
  from cached fails inside returns one outside throws update kept show ?thesis
    by (intro conjI)
qed

section \<open>The cursor path: properties\<close>

text \<open>
  C8. The cursor path of every transaction is computed from the transaction's
  resulting state and the \<open>to\<close> end of its main selection range: the node is the node
  at that offset, the path is the path of that node, or null without a node. Neither
  the previous cursor path nor the transaction's \<open>docChanged\<close> flag has any influence.
\<close>

theorem cursor_path_recomputed_from_transaction:
  "jsonCursorPath_update nodeAtCursor getPathAtNode oldValue tx =
     \<lparr>path = (case nodeAtCursor (tx_state tx) (range_to (main (selection (tx_state tx)))) of
                None \<Rightarrow> None
              | Some n \<Rightarrow> getPathAtNode (tx_state tx) n),
      node = nodeAtCursor (tx_state tx) (range_to (main (selection (tx_state tx))))\<rparr>
   \<and> jsonCursorPath_update nodeAtCursor getPathAtNode oldValue' tx
       = jsonCursorPath_update nodeAtCursor getPathAtNode oldValue tx
   \<and> jsonCursorPath_update nodeAtCursor getPathAtNode oldValue (tx\<lparr>docChanged := changed\<rparr>)
       = jsonCursorPath_update nodeAtCursor getPathAtNode oldValue tx"
  by (simp add: jsonCursorPath_update_def Let_def split: option.splits)

text \<open>
  C10. The cursor path state never has a path without a node: after every update a
  non-null path comes with a non-null node, and the invariant holds in the initial
  state and after every sequence of transactions.
\<close>

theorem cursor_path_has_node_when_it_has_path:
  "(path (jsonCursorPath_update nodeAtCursor getPathAtNode oldValue tx) \<noteq> None \<longrightarrow>
      node (jsonCursorPath_update nodeAtCursor getPathAtNode oldValue tx) \<noteq> None)
   \<and> cursorPathInv
       (foldl (jsonCursorPath_update nodeAtCursor getPathAtNode) jsonCursorPath_create txs)"
proof
  show "path (jsonCursorPath_update nodeAtCursor getPathAtNode oldValue tx) \<noteq> None \<longrightarrow>
      node (jsonCursorPath_update nodeAtCursor getPathAtNode oldValue tx) \<noteq> None"
    by (auto simp add: jsonCursorPath_update_def Let_def split: option.splits)
  show "cursorPathInv
       (foldl (jsonCursorPath_update nodeAtCursor getPathAtNode) jsonCursorPath_create txs)"
  proof (cases txs rule: rev_cases)
    case Nil
    then show ?thesis by (simp add: cursorPathInv_def jsonCursorPath_create_def)
  next
    case (snoc ys y)
    then show ?thesis
      by (simp add: cursorPathInv_def jsonCursorPath_update_def Let_def split: option.splits)
  qed
qed

theorem cursor_path_has_node_when_it_has_path_witness:
  "path (jsonCursorPath_update exampleNodeAtCursor exampleGetPathAtNode
           jsonCursorPath_create (exampleTx True [''[1]''] 1)) \<noteq> None
   \<and> node (jsonCursorPath_update exampleNodeAtCursor exampleGetPathAtNode
           jsonCursorPath_create (exampleTx True [''[1]''] 1)) \<noteq> None
   \<and> node (foldl (jsonCursorPath_update exampleNodeAtCursor exampleGetPathAtNode)
           jsonCursorPath_create [exampleTx True [''[1]''] 1, exampleTx False [''[1]''] 9])
       = None
   \<and> path (foldl (jsonCursorPath_update exampleNodeAtCursor exampleGetPathAtNode)
           jsonCursorPath_create [exampleTx True [''[1]''] 1, exampleTx False [''[1]''] 9])
       = None"
proof -
  let ?t1 = "exampleTx True [''[1]''] 1"
  let ?t2 = "exampleTx False [''[1]''] 9"
  have has_path: "path (jsonCursorPath_update exampleNodeAtCursor exampleGetPathAtNode
           jsonCursorPath_create ?t1) \<noteq> None"
    by (simp add: jsonCursorPath_update_def exampleNodeAtCursor_def exampleGetPathAtNode_def
        exampleTx_def exampleState_def)
  have no_node: "node (foldl (jsonCursorPath_update exampleNodeAtCursor exampleGetPathAtNode)
           jsonCursorPath_create [?t1, ?t2]) = None"
    by (simp add: jsonCursorPath_update_def exampleNodeAtCursor_def exampleGetPathAtNode_def
        exampleTx_def exampleState_def)
  show ?thesis
    using has_path no_node
      cursor_path_has_node_when_it_has_path [where nodeAtCursor = exampleNodeAtCursor
        and getPathAtNode = exampleGetPathAtNode and oldValue = jsonCursorPath_create
        and tx = ?t1 and txs = "[?t1, ?t2]"]
    unfolding cursorPathInv_def
    by blast
qed

end
